theory Spec2Isabelle
  imports Main
begin

section \<open>Data model\<close>

text \<open>
  The feed's records, the Blocks and the responses of the request primitive.  The source
  never inspects a date: it compares dates with \<^verbatim>\<open>===\<close>, hands them to
  \<^verbatim>\<open>parseTimestamp\<close> and \<^verbatim>\<open>getMiddleDate\<close>, and copies them.  The
  type of dates is therefore a type variable \<open>'d\<close> (ISO strings in the running system),
  and a property that speaks of older and newer dates is stated for an ordered \<open>'d\<close>.
\<close>

record 'd schema =
  updatedAt :: 'd

text \<open>\<^verbatim>\<open>config.mapping.type\<close>: the field of the payload that holds the record array
  (\<open>root\<close>) and the dataset name.\<close>

record dataset_mapping =
  root :: string
  dataset :: string

text \<open>A Block.  \<open>idB\<close> is the field \<^verbatim>\<open>id\<close>.  The Controller builds Blocks with a
  mapping, the Worker builds them without one.\<close>

record 'd block =
  idB :: string
  startDate :: 'd
  endDate :: 'd
  contract :: string
  mapping :: "dataset_mapping option"

text \<open>
  What \<^verbatim>\<open>request\<close> resolves to: a success payload with the record array found under
  the dataset's root key and an optional continuation cursor, or an error payload.
\<close>

datatype 'd response =
    Success "'d schema list" "string option"
  | Failure

text \<open>Modelled from the spec: \<^verbatim>\<open>isSuccessResponse\<close> is imported from
  \<^verbatim>\<open>../utils\<close>, whose source is missing; it classifies a response as
  application-success or application-failure.\<close>

fun isSuccessResponse :: "'d response \<Rightarrow> bool" where
  "isSuccessResponse (Success recs c) = True"
| "isSuccessResponse Failure = False"

text \<open>\<^verbatim>\<open>res.data[root]\<close> and \<^verbatim>\<open>res.data.continuation\<close>.  The source reads them only
  after the success check.\<close>

fun records :: "'d response \<Rightarrow> 'd schema list" where
  "records (Success recs c) = recs"
| "records Failure = []"

fun res_continuation :: "'d response \<Rightarrow> string option" where
  "res_continuation (Success recs c) = c"
| "res_continuation Failure = None"

text \<open>JavaScript truthiness of an optional string: absent and the empty string are falsy.\<close>

fun truthy :: "string option \<Rightarrow> bool" where
  "truthy None = False"
| "truthy (Some s) = (s \<noteq> [])"

section \<open>Controller\<close>

subsection \<open>Query normalization\<close>

text \<open>\<^verbatim>\<open>Array.prototype.join\<close>.\<close>

fun join :: "string \<Rightarrow> string list \<Rightarrow> string" where
  "join sep [] = []"
| "join sep [x] = x"
| "join sep (x # y # ys) = x @ sep @ join sep (y # ys)"

text \<open>
  \<^verbatim>\<open>normalizeParameters\<close>.  The parameter object is the list of its keys in the order
  \<^verbatim>\<open>Object.keys\<close> lists them, each with the text that the template literal
  \<^verbatim>\<open>${params[key]}\<close> gives for its value.  The first argument is
  \<^verbatim>\<open>config.mapping.type.root\<close>.
\<close>

definition normalizeParameters :: "string \<Rightarrow> (string \<times> string) list \<Rightarrow> string" where
  "normalizeParameters rt params =
     join ''&''
       ([''limit=1000'', ''includeCriteriaMetadata=true'']
        @ [if rt = ''sales'' then ''orderBy=updated_at'' else ''sortBy=updatedAt'']
        @ map (\<lambda>(key, v). key @ ''='' @ v) params)"

subsection \<open>The initial Block\<close>

text \<open>
  The two ways \<^verbatim>\<open>_getInitialBlock\<close> fails: the explicit \<^verbatim>\<open>throw\<close> when a probe
  is not a success, and the TypeError of reading \<^verbatim>\<open>updatedAt\<close> from
  \<^verbatim>\<open>undefined\<close>, which is what index \<^verbatim>\<open>length - 1\<close> yields on an empty array.
\<close>

datatype error = InitializingBlocksFailed | TypeErrorUndefined

text \<open>
  \<^verbatim>\<open>_getInitialBlock\<close>, after the two probes have resolved to \<open>r0\<close> (ascending) and
  \<open>r1\<close> (descending).  \<open>uuid\<close> is what \<^verbatim>\<open>v4()\<close> returns.
\<close>

definition getInitialBlock ::
  "dataset_mapping \<Rightarrow> string \<Rightarrow> 'd response \<Rightarrow> 'd response \<Rightarrow> error + 'd block" where
  "getInitialBlock m uuid r0 r1 =
     (if \<not> isSuccessResponse r0 \<or> \<not> isSuccessResponse r1 then Inl InitializingBlocksFailed
      else if records r0 = [] then Inl TypeErrorUndefined
      else if records r1 = [] then Inl TypeErrorUndefined
      else Inr \<lparr> idB = uuid,
                 startDate = updatedAt (last (records r0)),
                 endDate = updatedAt (last (records r1)),
                 contract = [],
                 mapping = Some m \<rparr>)"

text \<open>
  The oldest and the newest date on a non-empty page.  These are not part of the program:
  they are the terms in which the initial Block is described, kept apart to be compared
  with what \<^verbatim>\<open>_getInitialBlock\<close> computes.
\<close>

definition oldest :: "('d::linorder) schema list \<Rightarrow> 'd" where
  "oldest recs = Min (set (map updatedAt recs))"

definition newest :: "('d::linorder) schema list \<Rightarrow> 'd" where
  "newest recs = Max (set (map updatedAt recs))"

section \<open>Worker\<close>

subsection \<open>State, events and effects\<close>

text \<open>The two events a Worker emits on \<^verbatim>\<open>worker.event\<close>.\<close>

datatype 'd worker_event = WorkerSplit "'d block" | WorkerRelease "'d block"

text \<open>
  What a Worker does to the outside, in the order it does it: a request handed to the
  Controller (its query string), a \<^verbatim>\<open>delay\<close> in milliseconds, a batch passed to
  \<^verbatim>\<open>_insert\<close>, a batch passed to \<^verbatim>\<open>InsertionService.upsert\<close> with the
  dataset, and an emitted event.  Logging is left out.
\<close>

datatype 'd effect =
    Request string
  | Delay nat
  | Insert "'d schema list"
  | Upsert string "'d schema list"
  | Emit "'d worker_event"

text \<open>
  The fields of the class: \<^verbatim>\<open>busy\<close>, \<^verbatim>\<open>data.block\<close>, \<^verbatim>\<open>data.continuation\<close>
  and \<^verbatim>\<open>continuation\<close>; \<open>trace\<close> collects the effects so far.
\<close>

record 'd worker =
  busy :: bool
  data_block :: "'d block option"
  data_continuation :: "string option"
  continuation :: string
  trace :: "'d effect list"

text \<open>
  What the Worker takes from outside \<^verbatim>\<open>Worker.ts\<close>, kept as parameters: the
  method \<^verbatim>\<open>controller.normalize\<close> bound in the constructor, the dataset read from
  the configuration (\<^verbatim>\<open>_datatype\<close>), and the utilities \<^verbatim>\<open>parseTimestamp\<close>
  (with the text of the number it returns), \<^verbatim>\<open>isHighDensityBlock\<close> and
  \<^verbatim>\<open>getMiddleDate\<close>.  \<open>farFuture\<close> is the date literal
  \<^verbatim>\<open>'9999-12-31T23:59:59Z'\<close>.
\<close>

record 'd env =
  normalize :: "(string \<times> string) list \<Rightarrow> string"
  datatypeW :: string
  parseTimestamp :: "'d \<Rightarrow> string"
  isHighDensityBlock :: "'d schema list \<Rightarrow> nat \<Rightarrow> bool"
  getMiddleDate :: "'d \<Rightarrow> 'd \<Rightarrow> 'd"
  farFuture :: 'd

definition perform :: "'d effect \<Rightarrow> 'd worker \<Rightarrow> 'd worker" where
  "perform x w = w\<lparr>trace := trace w @ [x]\<rparr>"

text \<open>\<^verbatim>\<open>_split\<close> and \<^verbatim>\<open>_release\<close>.\<close>

definition worker_split :: "'d block \<Rightarrow> 'd worker \<Rightarrow> 'd worker" where
  "worker_split b w = perform (Emit (WorkerSplit b)) w"

definition worker_release :: "'d block \<Rightarrow> 'd worker \<Rightarrow> 'd worker" where
  "worker_release b w = perform (Emit (WorkerRelease b)) (w\<lparr>busy := False, continuation := []\<rparr>)"

text \<open>The Block literal \<^verbatim>\<open>{ startDate, endDate, id, contract }\<close>: no mapping.\<close>

definition block4 :: "'d \<Rightarrow> 'd \<Rightarrow> string \<Rightarrow> string \<Rightarrow> 'd block" where
  "block4 s e i c = \<lparr> idB = i, startDate = s, endDate = e, contract = c, mapping = None \<rparr>"

subsection \<open>Queries\<close>

text \<open>The spread \<^verbatim>\<open>...(v && { key: v })\<close>: the key is present when the string is
  not empty.\<close>

definition opt_param :: "string \<Rightarrow> string \<Rightarrow> (string \<times> string) list" where
  "opt_param key v = (if v \<noteq> [] then [(key, v)] else [])"

text \<open>The bounding probes of \<^verbatim>\<open>process\<close> (lines 88 and 110).\<close>

definition probe_query :: "'d env \<Rightarrow> string \<Rightarrow> 'd \<Rightarrow> 'd \<Rightarrow> string \<Rightarrow> string" where
  "probe_query env dir s e c =
     normalize env
       (opt_param ''contract'' c
        @ [(''startTimestamp'', parseTimestamp env s),
           (''endTimestamp'', parseTimestamp env e),
           (''sortDirection'', dir)])"

text \<open>The page request of the processing loop (line 158).\<close>

definition page_query :: "'d env \<Rightarrow> string \<Rightarrow> 'd \<Rightarrow> 'd \<Rightarrow> string" where
  "page_query env cur s e =
     normalize env
       (opt_param ''continuation'' cur
        @ [(''sortDirection'', ''asc''),
           (''startTimestamp'', parseTimestamp env s),
           (''endTimestamp'', parseTimestamp env e)])"

text \<open>The two requests of \<^verbatim>\<open>upkeep\<close> (lines 204 and 223).\<close>

definition upkeep_asc_query :: "'d env \<Rightarrow> string \<Rightarrow> 'd \<Rightarrow> string" where
  "upkeep_asc_query env cur sd =
     normalize env
       (opt_param ''continuation'' cur
        @ [(''sortDirection'', ''asc''),
           (''startTimestamp'', parseTimestamp env sd),
           (''endTimestamp'', parseTimestamp env (farFuture env))])"

definition upkeep_desc_query :: "'d env \<Rightarrow> string \<Rightarrow> 'd \<Rightarrow> string" where
  "upkeep_desc_query env cur date =
     normalize env
       (opt_param ''continuation'' cur
        @ [(''sortDirection'', ''desc''),
           (''startTimestamp'', parseTimestamp env date),
           (''endTimestamp'', ''253402214400'')])"

subsection \<open>Graining\<close>

text \<open>
  One pass through the body of the first \<^verbatim>\<open>while (true)\<close> of \<^verbatim>\<open>process\<close>,
  given the response \<open>descRes\<close> that the descending probe resolves to.  \<open>asc\<close> is the
  record array of the ascending probe, \<open>s\<close> and \<open>e\<close> the current \<^verbatim>\<open>startDate\<close>
  and \<^verbatim>\<open>endDate\<close>.  The body ends in \<^verbatim>\<open>continue\<close> (with the \<^verbatim>\<open>endDate\<close>
  of the next pass), in \<^verbatim>\<open>break\<close>, or in the \<^verbatim>\<open>return\<close> after a release.
\<close>

datatype 'd grain_step =
    GrainContinue 'd "'d worker"
  | GrainBreak "'d worker"
  | GrainReturn "'d worker"

definition grain_iteration ::
  "'d env \<Rightarrow> 'd schema list \<Rightarrow> 'd \<Rightarrow> 'd \<Rightarrow> string \<Rightarrow> string \<Rightarrow> 'd response \<Rightarrow> 'd worker
   \<Rightarrow> 'd grain_step" where
  "grain_iteration env asc s e i c descRes w =
     (let w1 = perform (Request (probe_query env ''desc'' s e c)) w in
      if \<not> isSuccessResponse descRes then GrainContinue e (perform (Delay 5000) w1)
      else
        let recs = asc @ records descRes;
            w2 = perform (Insert recs) w1
        in if isHighDensityBlock env recs 300000 then
             (let middleDate = getMiddleDate env s e in
              if middleDate = s \<or> middleDate = e
              then GrainReturn (worker_release (block4 s e i c) w2)
              else GrainContinue middleDate (worker_split (block4 middleDate e i c) w2))
           else GrainBreak w2)"

text \<open>
  The loop, run on the responses that the successive descending probes resolve to.  When
  they are used up the loop has issued its next probe and awaits the answer.
\<close>

datatype 'd grain_outcome =
    GrainAwaiting "'d worker"
  | GrainReleased "'d worker"
  | Grained 'd "'d response list" "'d worker"

fun grain ::
  "'d env \<Rightarrow> 'd schema list \<Rightarrow> 'd \<Rightarrow> 'd \<Rightarrow> string \<Rightarrow> string \<Rightarrow> 'd response list \<Rightarrow> 'd worker
   \<Rightarrow> 'd grain_outcome" where
  "grain env asc s e i c [] w =
     GrainAwaiting (perform (Request (probe_query env ''desc'' s e c)) w)"
| "grain env asc s e i c (descRes # rs) w =
     (case grain_iteration env asc s e i c descRes w of
        GrainContinue e' w' \<Rightarrow> grain env asc s e' i c rs w'
      | GrainBreak w' \<Rightarrow> Grained e rs w'
      | GrainReturn w' \<Rightarrow> GrainReleased w')"

fun grain_worker :: "'d grain_outcome \<Rightarrow> 'd worker" where
  "grain_worker (GrainAwaiting w) = w"
| "grain_worker (GrainReleased w) = w"
| "grain_worker (Grained e rs w) = w"

text \<open>The Blocks of the split events in a trace, in order.\<close>

fun split_blocks :: "'d effect list \<Rightarrow> 'd block list" where
  "split_blocks [] = []"
| "split_blocks (Emit (WorkerSplit b) # xs) = b # split_blocks xs"
| "split_blocks (x # xs) = split_blocks xs"

subsection \<open>Processing\<close>

text \<open>One pass through the body of the second \<^verbatim>\<open>while (true)\<close>, given the response
  \<open>res\<close> of the page request.\<close>

datatype 'd loop_step = Continue "'d worker" | Break "'d worker"

fun step_worker :: "'d loop_step \<Rightarrow> 'd worker" where
  "step_worker (Continue w) = w"
| "step_worker (Break w) = w"

definition processing_iteration ::
  "'d env \<Rightarrow> 'd \<Rightarrow> 'd \<Rightarrow> 'd response \<Rightarrow> 'd worker \<Rightarrow> 'd loop_step" where
  "processing_iteration env s e res w =
     (let w1 = perform (Request (page_query env (continuation w) s e)) w in
      if \<not> isSuccessResponse res then Continue (perform (Delay 5000) w1)
      else
        let recs = records res in
        if recs = [] then Break w1
        else
          let w2 = perform (Insert recs) w1 in
          (case res_continuation res of
             None \<Rightarrow> Break w2
           | Some cur \<Rightarrow> if cur = [] then Break w2 else Continue (w2\<lparr>continuation := cur\<rparr>)))"

datatype 'd run = Awaiting "'d worker" | Finished "'d worker"

fun run_worker :: "'d run \<Rightarrow> 'd worker" where
  "run_worker (Awaiting w) = w"
| "run_worker (Finished w) = w"

text \<open>The loop; \<open>Finished\<close> is the \<^verbatim>\<open>break\<close>, before the release that follows it.\<close>

fun processing :: "'d env \<Rightarrow> 'd \<Rightarrow> 'd \<Rightarrow> 'd response list \<Rightarrow> 'd worker \<Rightarrow> 'd run" where
  "processing env s e [] w =
     Awaiting (perform (Request (page_query env (continuation w) s e)) w)"
| "processing env s e (res # rs) w =
     (case processing_iteration env s e res w of
        Continue w' \<Rightarrow> processing env s e rs w'
      | Break w' \<Rightarrow> Finished w')"

subsection \<open>The whole of \<^verbatim>\<open>process\<close>\<close>

text \<open>
  \<^verbatim>\<open>process\<close> on a Block, run on the responses that its successive requests resolve
  to.  \<open>Finished\<close> is the return of \<^verbatim>\<open>process\<close>; \<open>Awaiting\<close> is the state in which
  the responses at hand are used up and the next request is in flight.  A failed first
  probe calls \<^verbatim>\<open>process\<close> again after the delay (line 99).
\<close>

fun process :: "'d env \<Rightarrow> 'd block \<Rightarrow> 'd response list \<Rightarrow> 'd worker \<Rightarrow> 'd run" where
  "process env b [] w =
     Awaiting
       (perform (Request (probe_query env ''asc'' (startDate b) (endDate b) (contract b)))
          (w\<lparr>busy := True,
             data_block := Some (block4 (startDate b) (endDate b) (idB b) (contract b))\<rparr>))"
| "process env b (ascRes # rs) w =
     (let s = startDate b; e = endDate b; i = idB b; c = contract b;
          w1 = perform (Request (probe_query env ''asc'' s e c))
                 (w\<lparr>busy := True, data_block := Some (block4 s e i c)\<rparr>)
      in if \<not> isSuccessResponse ascRes
         then process env (block4 s e i c) rs (perform (Delay 5000) w1)
         else if records ascRes = [] then Finished (worker_release (block4 s e i c) w1)
         else
           (case grain env (records ascRes) s e i c rs w1 of
              GrainAwaiting w2 \<Rightarrow> Awaiting w2
            | GrainReleased w2 \<Rightarrow> Finished w2
            | Grained e' rs' w2 \<Rightarrow>
                (case processing env s e' rs' w2 of
                   Awaiting w3 \<Rightarrow> Awaiting w3
                 | Finished w3 \<Rightarrow> Finished (worker_release (block4 s e' i c) w3))))"

subsection \<open>The tail loop\<close>

text \<open>
  One pass through the body of the \<^verbatim>\<open>while (true)\<close> of \<^verbatim>\<open>upkeep\<close>.  \<open>date\<close> is
  \<^verbatim>\<open>date.toISOString()\<close>, fixed before the loop; the state is the local
  \<^verbatim>\<open>startDate\<close>, the number of identifiers minted so far (\<open>v4 k\<close> is the one
  \<^verbatim>\<open>v4()\<close> returns next) and the Worker.  The pass is given the response of its
  ascending request and the response that its descending probe resolves to if the pass
  gets that far.
\<close>

definition upkeep_iteration ::
  "'d env \<Rightarrow> 'd \<Rightarrow> (nat \<Rightarrow> string) \<Rightarrow> 'd response \<Rightarrow> 'd response \<Rightarrow> 'd \<times> nat \<times> 'd worker
   \<Rightarrow> 'd \<times> nat \<times> 'd worker" where
  "upkeep_iteration env date v4 ascRes descRes st =
     (case st of (sd, k, w) \<Rightarrow>
        let w1 = perform (Request (upkeep_asc_query env (continuation w) sd))
                   (perform (Delay 5000) w)
        in if \<not> isSuccessResponse ascRes then (sd, k, w1)
           else
             let recs = records ascRes in
             if recs = [] then (sd, k, w1)
             else
               let w2 = perform (Upsert (datatypeW env) recs) w1 in
               if \<not> truthy (res_continuation ascRes) then (sd, k, w2)
               else
                 let w3 = perform (Request (upkeep_desc_query env (continuation w) date)) w2 in
                 if \<not> isSuccessResponse descRes then (sd, k, w3)
                 else if isHighDensityBlock env (recs @ records descRes) 300000 then
                   (let endD = updatedAt (last recs) in
                    (updatedAt (last recs), Suc k,
                     worker_split
                       \<lparr> idB = v4 k, startDate = updatedAt (hd recs), endDate = endD,
                         contract = [], mapping = None \<rparr> w3))
                 else (sd, k, w3))"

text \<open>The loop never ends; this is its state after the passes whose responses are given.\<close>

fun upkeep_loop ::
  "'d env \<Rightarrow> 'd \<Rightarrow> (nat \<Rightarrow> string) \<Rightarrow> ('d response \<times> 'd response) list \<Rightarrow> 'd \<times> nat \<times> 'd worker
   \<Rightarrow> 'd \<times> nat \<times> 'd worker" where
  "upkeep_loop env date v4 [] st = st"
| "upkeep_loop env date v4 ((ascRes, descRes) # rs) st =
     upkeep_loop env date v4 rs (upkeep_iteration env date v4 ascRes descRes st)"

text \<open>\<^verbatim>\<open>upkeep\<close>: the local \<^verbatim>\<open>startDate\<close> begins as the date taken on entry.\<close>

definition upkeep ::
  "'d env \<Rightarrow> 'd \<Rightarrow> (nat \<Rightarrow> string) \<Rightarrow> ('d response \<times> 'd response) list \<Rightarrow> 'd worker
   \<Rightarrow> 'd \<times> nat \<times> 'd worker" where
  "upkeep env date v4 rs w = upkeep_loop env date v4 rs (date, 0, w)"

subsection \<open>The contract of \<^verbatim>\<open>getMiddleDate\<close>\<close>

text \<open>
  Modelled from the spec: \<^verbatim>\<open>getMiddleDate\<close> is imported from \<^verbatim>\<open>../utils\<close>,
  whose source is missing.  Its contract, for an ordered range: a date strictly between
  start and end when there is one, else one of the two boundaries.
\<close>

definition middle_contract :: "(('d::linorder) \<Rightarrow> 'd \<Rightarrow> 'd) \<Rightarrow> bool" where
  "middle_contract gmd =
     (\<forall>a b. a \<le> b \<longrightarrow>
        (if \<exists>t. a < t \<and> t < b then a < gmd a b \<and> gmd a b < b
         else gmd a b = a \<or> gmd a b = b))"

section \<open>A concrete environment\<close>

text \<open>
  An environment to run the definitions in: dates are whole seconds since the epoch,
  \<^verbatim>\<open>parseTimestamp\<close> prints them in decimal, a sample is too dense when it holds more
  than three records, and the middle date is the rounded-down mean.
\<close>

fun decimal :: "nat \<Rightarrow> string" where
  "decimal n =
     (if n < 10 then [char_of (48 + n)] else decimal (n div 10) @ [char_of (48 + n mod 10)])"

declare decimal.simps [simp del]

definition example_env :: "int env" where
  "example_env =
     \<lparr> normalize = normalizeParameters ''sales'',
       datatypeW = ''sales'',
       parseTimestamp = (\<lambda>d. decimal (nat d)),
       isHighDensityBlock = (\<lambda>recs threshold. threshold < 100000 * length recs),
       getMiddleDate = (\<lambda>a b. (a + b) div 2),
       farFuture = 253402300799 \<rparr>"

definition idle :: "int worker" where
  "idle = \<lparr> busy = False, data_block = None, data_continuation = None,
            continuation = [], trace = [] \<rparr>"

definition page :: "int list \<Rightarrow> int schema list" where
  "page ts = map (\<lambda>t. \<lparr> updatedAt = t \<rparr>) ts"

section \<open>Query normalization, proved\<close>

lemma join_amp_cons:
  "join ''&'' (x # xs) = x @ concat (map (\<lambda>p. ''&'' @ p) xs)"
  by (induction xs arbitrary: x) (case_tac xs; simp)+

text \<open>
  C7.  Query normalization: for every parameter list the query string is the fixed pair
  \<open>limit=1000\<close> and \<open>includeCriteriaMetadata=true\<close>, then exactly one sort-field
  parameter chosen by the root key (\<open>orderBy=updated_at\<close> when the root is \<open>sales\<close>,
  \<open>sortBy=updatedAt\<close> otherwise), then each caller parameter as \<open>key=value\<close>, every
  one preceded by \<open>&\<close>, with nothing escaped or checked.
\<close>

theorem normalizeParameters_shape:
  "normalizeParameters rt params =
     ''limit=1000&includeCriteriaMetadata=true&''
     @ (if rt = ''sales'' then ''orderBy=updated_at'' else ''sortBy=updatedAt'')
     @ concat (map (\<lambda>(key, v). ''&'' @ key @ ''='' @ v) params)"
proof -
  have "concat (map ((\<lambda>p. ''&'' @ p) \<circ> (\<lambda>(key, v). key @ ''='' @ v)) params)
        = concat (map (\<lambda>(key, v). ''&'' @ key @ ''='' @ v) params)"
    by (rule arg_cong [where f = concat]) (auto simp: fun_eq_iff)
  then show ?thesis
    by (simp add: normalizeParameters_def join_amp_cons del: join.simps)
qed

section \<open>Properties of the Worker\<close>

subsection \<open>Effects and fields\<close>

lemma perform_simps [simp]:
  "busy (perform x w) = busy w"
  "data_block (perform x w) = data_block w"
  "data_continuation (perform x w) = data_continuation w"
  "continuation (perform x w) = continuation w"
  "trace (perform x w) = trace w @ [x]"
  by (simp_all add: perform_def)

lemma worker_split_simps [simp]:
  "busy (worker_split b w) = busy w"
  "data_block (worker_split b w) = data_block w"
  "data_continuation (worker_split b w) = data_continuation w"
  "continuation (worker_split b w) = continuation w"
  "trace (worker_split b w) = trace w @ [Emit (WorkerSplit b)]"
  by (simp_all add: worker_split_def)

lemma worker_release_simps [simp]:
  "busy (worker_release b w) = False"
  "data_block (worker_release b w) = data_block w"
  "data_continuation (worker_release b w) = data_continuation w"
  "continuation (worker_release b w) = []"
  "trace (worker_release b w) = trace w @ [Emit (WorkerRelease b)]"
  by (simp_all add: worker_release_def)

lemma split_blocks_append: "split_blocks (xs @ ys) = split_blocks xs @ split_blocks ys"
  by (induction xs rule: split_blocks.induct) simp_all

subsection \<open>The body of the graining loop, branch by branch\<close>

lemma grain_iteration_retry:
  "\<not> isSuccessResponse descRes \<Longrightarrow>
   grain_iteration env asc s e i c descRes w =
     GrainContinue e (perform (Delay 5000) (perform (Request (probe_query env ''desc'' s e c)) w))"
  by (simp add: grain_iteration_def)

lemma grain_iteration_sparse:
  "isSuccessResponse descRes \<Longrightarrow> \<not> isHighDensityBlock env (asc @ records descRes) 300000 \<Longrightarrow>
   grain_iteration env asc s e i c descRes w =
     GrainBreak (perform (Insert (asc @ records descRes))
                   (perform (Request (probe_query env ''desc'' s e c)) w))"
  by (simp add: grain_iteration_def)

lemma grain_iteration_collapse:
  "isSuccessResponse descRes \<Longrightarrow> isHighDensityBlock env (asc @ records descRes) 300000 \<Longrightarrow>
   getMiddleDate env s e = s \<or> getMiddleDate env s e = e \<Longrightarrow>
   grain_iteration env asc s e i c descRes w =
     GrainReturn (worker_release (block4 s e i c)
                    (perform (Insert (asc @ records descRes))
                       (perform (Request (probe_query env ''desc'' s e c)) w)))"
  by (simp add: grain_iteration_def Let_def)

lemma grain_iteration_halve:
  "isSuccessResponse descRes \<Longrightarrow> isHighDensityBlock env (asc @ records descRes) 300000 \<Longrightarrow>
   getMiddleDate env s e \<noteq> s \<Longrightarrow> getMiddleDate env s e \<noteq> e \<Longrightarrow>
   grain_iteration env asc s e i c descRes w =
     GrainContinue (getMiddleDate env s e)
       (worker_split (block4 (getMiddleDate env s e) e i c)
          (perform (Insert (asc @ records descRes))
             (perform (Request (probe_query env ''desc'' s e c)) w)))"
  by (simp add: grain_iteration_def Let_def)

subsection \<open>The concrete environment\<close>

lemma example_env_fields [simp]:
  "isHighDensityBlock example_env recs threshold = (threshold < 100000 * length recs)"
  "getMiddleDate example_env a b = (a + b) div 2"
  "datatypeW example_env = ''sales''"
  by (simp_all add: example_env_def)

lemma example_env_contract: "middle_contract (getMiddleDate example_env)"
proof -
  have "(if \<exists>t. a < t \<and> t < b then a < (a + b) div 2 \<and> (a + b) div 2 < b
         else (a + b) div 2 = a \<or> (a + b) div 2 = b)" if "a \<le> b" for a b :: int
  proof (cases "a + 2 \<le> b")
    case True
    then have "a < a + 1 \<and> a + 1 < b" by simp
    then have "\<exists>t. a < t \<and> t < b" by blast
    moreover have "a < (a + b) div 2 \<and> (a + b) div 2 < b"
      using True by linarith
    ultimately show ?thesis by simp
  next
    case False
    then have "\<not> (\<exists>t. a < t \<and> t < b)" by auto
    moreover have "(a + b) div 2 = a \<or> (a + b) div 2 = b"
      using False that by linarith
    ultimately show ?thesis by auto
  qed
  then show ?thesis
    unfolding middle_contract_def example_env_fields by blast
qed

section \<open>Bootstrap\<close>

text \<open>
  C1.  The initial Block is meant to be \<open>[oldest, newest]\<close>: its \<open>startDate\<close> the oldest
  date of the ascending page and its \<open>endDate\<close> the newest date of the descending page.
  \<^verbatim>\<open>_getInitialBlock\<close> takes the last record of both pages instead.  On a feed of three
  records, dated 1, 2 and 3, the ascending page is 1, 2, 3 and the descending page is
  3, 2, 1; the Block built is \<open>[3, 1]\<close>, whereas the oldest date is 1 and the newest 3.
\<close>

theorem getInitialBlock_takes_last_of_both_pages:
  "getInitialBlock m u (Success (page [1, 2, 3]) None) (Success (page [3, 2, 1]) None)
     = Inr \<lparr> idB = u, startDate = 3, endDate = 1, contract = [], mapping = Some m \<rparr>
   \<and> oldest (page [1, 2, 3]) = 1
   \<and> newest (page [3, 2, 1]) = 3"
  by (simp add: getInitialBlock_def oldest_def newest_def page_def)

theorem getInitialBlock_takes_last_of_both_pages_witness:
  "getInitialBlock \<lparr>root = ''sales'', dataset = ''sales''\<rparr> ''b0''
     (Success (page [1, 2, 3]) None) (Success (page [3, 2, 1]) None)
     = Inr \<lparr> idB = ''b0'', startDate = 3, endDate = 1, contract = [],
             mapping = Some \<lparr>root = ''sales'', dataset = ''sales''\<rparr> \<rparr>
   \<and> oldest (page [1, 2, 3]) \<noteq> 3
   \<and> newest (page [3, 2, 1]) \<noteq> 1"
  using getInitialBlock_takes_last_of_both_pages
          [of "\<lparr>root = ''sales'', dataset = ''sales''\<rparr>" "''b0''"]
  by simp

text \<open>
  C8.  When both probes are successes with an empty record array, \<^verbatim>\<open>_getInitialBlock\<close>
  reads index \<open>length - 1\<close> of an empty array and fails with the TypeError; and for two
  successful probes a Block is returned exactly when both pages are non-empty.
\<close>

theorem getInitialBlock_defined_iff:
  "getInitialBlock m uuid (Success [] c0) (Success [] c1) = (Inl TypeErrorUndefined :: error + 'd block)
   \<and> (isSuccessResponse (r0 :: 'd response) \<and> isSuccessResponse r1 \<longrightarrow>
        ((\<exists>b. getInitialBlock m uuid r0 r1 = Inr b) \<longleftrightarrow> records r0 \<noteq> [] \<and> records r1 \<noteq> []))"
  by (simp add: getInitialBlock_def)

theorem getInitialBlock_defined_iff_witness:
  "isSuccessResponse (Success (page [1, 2]) None)
   \<and> isSuccessResponse (Success (page [9, 8]) None)
   \<and> records (Success (page [1, 2]) None) \<noteq> []
   \<and> records (Success (page [9, 8]) None) \<noteq> []
   \<and> (\<exists>b. getInitialBlock \<lparr>root = ''sales'', dataset = ''sales''\<rparr> ''b0''
              (Success (page [1, 2]) None) (Success (page [9, 8]) None) = Inr b)
   \<and> getInitialBlock \<lparr>root = ''sales'', dataset = ''sales''\<rparr> ''b0''
        (Success [] None) (Success [] None) = (Inl TypeErrorUndefined :: error + int block)"
  using getInitialBlock_defined_iff
          [of "\<lparr>root = ''sales'', dataset = ''sales''\<rparr>" "''b0''" None None
              "Success (page [1, 2]) None" "Success (page [9, 8]) None"]
  by (simp add: page_def)

section \<open>Graining\<close>

text \<open>
  C2.  A split preserves the range.  When the range is ordered, the descending probe is a
  success, the sample is too dense and the middle date lies strictly inside the range, one
  pass of the graining loop emits a Split whose \<open>startDate\<close> is the middle date and
  whose \<open>endDate\<close> is the old \<open>endDate\<close>, and the loop goes on with
  \<open>[startDate, middle]\<close>; the two ranges together are the range before the split, they
  share the middle date only, and both are ordered.
\<close>

theorem grain_split_preserves_range:
  fixes s e :: "'d::linorder"
  assumes "s \<le> e" and "isSuccessResponse descRes"
    and "isHighDensityBlock env (asc @ records descRes) 300000"
    and "s < getMiddleDate env s e" and "getMiddleDate env s e < e"
  shows "grain_iteration env asc s e i c descRes w =
           GrainContinue (getMiddleDate env s e)
             (w\<lparr>trace := trace w @
                  [Request (probe_query env ''desc'' s e c),
                   Insert (asc @ records descRes),
                   Emit (WorkerSplit
                     \<lparr> idB = i, startDate = getMiddleDate env s e, endDate = e,
                       contract = c, mapping = None \<rparr>)]\<rparr>)
         \<and> grain env asc s e i c (descRes # rs) w =
             grain env asc s (getMiddleDate env s e) i c rs
               (w\<lparr>trace := trace w @
                    [Request (probe_query env ''desc'' s e c),
                     Insert (asc @ records descRes),
                     Emit (WorkerSplit
                       \<lparr> idB = i, startDate = getMiddleDate env s e, endDate = e,
                         contract = c, mapping = None \<rparr>)]\<rparr>)
         \<and> {s..getMiddleDate env s e} \<union> {getMiddleDate env s e..e} = {s..e}
         \<and> {s..getMiddleDate env s e} \<inter> {getMiddleDate env s e..e} = {getMiddleDate env s e}
         \<and> s \<le> getMiddleDate env s e \<and> getMiddleDate env s e \<le> e"
proof -
  let ?m = "getMiddleDate env s e"
  let ?w' = "w\<lparr>trace := trace w @
                  [Request (probe_query env ''desc'' s e c),
                   Insert (asc @ records descRes),
                   Emit (WorkerSplit
                     \<lparr> idB = i, startDate = ?m, endDate = e,
                       contract = c, mapping = None \<rparr>)]\<rparr>"
  have ne: "?m \<noteq> s" "?m \<noteq> e"
    using assms(4,5) by simp_all
  have step: "grain_iteration env asc s e i c descRes w = GrainContinue ?m ?w'"
    by (simp add: grain_iteration_halve [OF assms(2,3) ne] worker_split_def perform_def
          block4_def)
  have loop: "grain env asc s e i c (descRes # rs) w = grain env asc s ?m i c rs ?w'"
    by (simp add: step)
  have cover: "{s..?m} \<union> {?m..e} = {s..e}"
    using assms(4,5) by auto
  have meet: "{s..?m} \<inter> {?m..e} = {?m}"
    using assms(4,5) by auto
  have le1: "s \<le> ?m" and le2: "?m \<le> e"
    using assms(4,5) by simp_all
  show ?thesis
    by (intro conjI; fact)
qed

theorem grain_split_preserves_range_witness:
  "(0::int) \<le> 8
   \<and> isSuccessResponse (Success (page [8, 7]) None)
   \<and> isHighDensityBlock example_env (page [1, 2] @ records (Success (page [8, 7]) None)) 300000
   \<and> 0 < getMiddleDate example_env 0 8 \<and> getMiddleDate example_env 0 8 < 8
   \<and> grain_iteration example_env (page [1, 2]) 0 8 ''b0'' [] (Success (page [8, 7]) None) idle =
       GrainContinue 4
         (idle\<lparr>trace := trace idle @
                 [Request (probe_query example_env ''desc'' 0 8 []),
                  Insert (page [1, 2] @ page [8, 7]),
                  Emit (WorkerSplit
                    \<lparr> idB = ''b0'', startDate = 4, endDate = 8,
                      contract = [], mapping = None \<rparr>)]\<rparr>)
   \<and> {0..4} \<union> {4..8} = {0..8::int}
   \<and> {0..4} \<inter> {4..8} = {4::int}"
proof -
  have h1: "(0::int) \<le> 8" by simp
  have h2: "isSuccessResponse (Success (page [8, 7]) None)" by simp
  have h3: "isHighDensityBlock example_env
              (page [1, 2] @ records (Success (page [8, 7]) None)) 300000"
    by (simp add: page_def)
  have h4: "0 < getMiddleDate example_env 0 8" by simp
  have h5: "getMiddleDate example_env 0 8 < 8" by simp
  have m: "getMiddleDate example_env 0 8 = 4" by simp
  show ?thesis
    using grain_split_preserves_range [OF h1 h2 h3 h4 h5, of "''b0''" "[]" idle "[]"] h3
    unfolding m by simp
qed

subsection \<open>Termination of the halving\<close>

lemma interior_card:
  fixes s :: "'d::linorder"
  assumes "finite {s<..<e}" and "s < m" and "m < e"
  shows "finite {s<..<m}" and "card {s<..<m} < card {s<..<e}"
proof -
  have sub: "{s<..<m} \<subset> {s<..<e}"
    using assms(2,3) by auto
  show "finite {s<..<m}"
    using sub assms(1) by (meson finite_subset psubset_imp_subset)
  show "card {s<..<m} < card {s<..<e}"
    using sub assms(1) by (rule psubset_card_mono [rotated])
qed

lemma contract_interior:
  fixes s :: "'d::linorder"
  assumes "middle_contract gmd" and "s \<le> e" and "gmd s e \<noteq> s" and "gmd s e \<noteq> e"
  shows "s < gmd s e \<and> gmd s e < e"
proof -
  from assms(1,2) have
    "if \<exists>t. s < t \<and> t < e then s < gmd s e \<and> gmd s e < e else gmd s e = s \<or> gmd s e = e"
    unfolding middle_contract_def by blast
  with assms(3,4) show ?thesis
    by (simp split: if_splits)
qed

lemma grain_split_bound:
  fixes s :: "'d::linorder"
  assumes "middle_contract (getMiddleDate env)" and "s \<le> e" and "finite {s<..<e}"
  shows "length (split_blocks (trace (grain_worker (grain env asc s e i c rs w))))
         \<le> length (split_blocks (trace w)) + card {s<..<e}"
  using assms(2,3)
proof (induction rs arbitrary: e w)
  case Nil
  then show ?case by (simp add: split_blocks_append)
next
  case (Cons descRes rs)
  let ?q = "Request (probe_query env ''desc'' s e c)"
  let ?m = "getMiddleDate env s e"
  show ?case
  proof (cases "isSuccessResponse descRes")
    case False
    show ?thesis
      using Cons.IH [OF Cons.prems, of "perform (Delay 5000) (perform ?q w)"]
      by (simp add: grain_iteration_retry [OF False] split_blocks_append)
  next
    case ok: True
    show ?thesis
    proof (cases "isHighDensityBlock env (asc @ records descRes) 300000")
      case False
      show ?thesis
        by (simp add: grain_iteration_sparse [OF ok False] split_blocks_append)
    next
      case dense: True
      show ?thesis
      proof (cases "?m = s \<or> ?m = e")
        case True
        show ?thesis
          by (simp add: grain_iteration_collapse [OF ok dense True] split_blocks_append)
      next
        case False
        then have ne: "?m \<noteq> s" "?m \<noteq> e" by simp_all
        have int: "s < ?m \<and> ?m < e"
          using contract_interior [OF assms(1) Cons.prems(1) ne] .
        then have le: "s \<le> ?m" by (blast intro: less_imp_le)
        have fin: "finite {s<..<?m}" and less: "card {s<..<?m} < card {s<..<e}"
          using interior_card [OF Cons.prems(2)] int by blast+
        let ?w' = "worker_split (block4 ?m e i c)
                     (perform (Insert (asc @ records descRes)) (perform ?q w))"
        have "length (split_blocks (trace (grain_worker (grain env asc s ?m i c rs ?w'))))
              \<le> length (split_blocks (trace ?w')) + card {s<..<?m}"
          by (rule Cons.IH [OF le fin])
        also have "length (split_blocks (trace ?w')) = Suc (length (split_blocks (trace w)))"
          by (simp add: split_blocks_append)
        finally show ?thesis
          using less by (simp add: grain_iteration_halve [OF ok dense ne])
      qed
    qed
  qed
qed

lemma grain_exits:
  fixes s :: "'d::linorder"
  assumes "middle_contract (getMiddleDate env)" and "s \<le> e" and "finite {s<..<e}"
    and "card {s<..<e} < length (filter isSuccessResponse rs)"
  shows "grain env asc s e i c rs w \<noteq> GrainAwaiting w'"
  using assms(2,3,4)
proof (induction rs arbitrary: e w)
  case Nil
  then show ?case by simp
next
  case (Cons descRes rs)
  let ?q = "Request (probe_query env ''desc'' s e c)"
  let ?m = "getMiddleDate env s e"
  show ?case
  proof (cases "isSuccessResponse descRes")
    case False
    show ?thesis
      using Cons.IH [OF Cons.prems(1,2), of "perform (Delay 5000) (perform ?q w)"]
        Cons.prems(3) False
      by (simp add: grain_iteration_retry [OF False])
  next
    case ok: True
    show ?thesis
    proof (cases "isHighDensityBlock env (asc @ records descRes) 300000")
      case False
      show ?thesis
        by (simp add: grain_iteration_sparse [OF ok False])
    next
      case dense: True
      show ?thesis
      proof (cases "?m = s \<or> ?m = e")
        case True
        show ?thesis
          by (simp add: grain_iteration_collapse [OF ok dense True])
      next
        case False
        then have ne: "?m \<noteq> s" "?m \<noteq> e" by simp_all
        have int: "s < ?m \<and> ?m < e"
          using contract_interior [OF assms(1) Cons.prems(1) ne] .
        then have le: "s \<le> ?m" by (blast intro: less_imp_le)
        have fin: "finite {s<..<?m}" and less: "card {s<..<?m} < card {s<..<e}"
          using interior_card [OF Cons.prems(2)] int by blast+
        have "card {s<..<?m} < length (filter isSuccessResponse rs)"
          using less Cons.prems(3) ok by simp
        from Cons.IH [OF le fin this] show ?thesis
          by (simp add: grain_iteration_halve [OF ok dense ne])
      qed
    qed
  qed
qed



section \<open>Processing\<close>

lemma processing_iteration_failure:
  "\<not> isSuccessResponse res \<Longrightarrow>
   processing_iteration env s e res w =
     Continue (w\<lparr>trace := trace w @ [Request (page_query env (continuation w) s e), Delay 5000]\<rparr>)"
  by (simp add: processing_iteration_def perform_def)

lemma processing_iteration_cursor:
  assumes "continuation (step_worker (processing_iteration env s e res w)) \<noteq> continuation w"
  shows "isSuccessResponse res \<and> records res \<noteq> []
         \<and> res_continuation res
             = Some (continuation (step_worker (processing_iteration env s e res w)))
         \<and> truthy (res_continuation res)"
proof (cases res)
  case Failure
  with assms show ?thesis
    by (simp add: processing_iteration_def)
next
  case (Success recs cur)
  with assms show ?thesis
    by (cases cur; cases "recs = []")
       (auto simp: processing_iteration_def Let_def split: if_splits)
qed

lemma processing_failures:
  assumes "\<forall>r \<in> set fs. \<not> isSuccessResponse r"
  shows "processing env s e (fs @ rs) w =
           processing env s e rs
             (w\<lparr>trace := trace w
                   @ concat (replicate (length fs)
                       [Request (page_query env (continuation w) s e), Delay 5000])\<rparr>)"
  using assms
proof (induction fs arbitrary: w)
  case Nil
  then show ?case by simp
next
  case (Cons r fs)
  let ?w' = "w\<lparr>trace := trace w @ [Request (page_query env (continuation w) s e), Delay 5000]\<rparr>"
  have r: "\<not> isSuccessResponse r" and fs: "\<forall>r \<in> set fs. \<not> isSuccessResponse r"
    using Cons.prems by simp_all
  have "processing env s e ((r # fs) @ rs) w = processing env s e (fs @ rs) ?w'"
    by (simp add: processing_iteration_failure [OF r])
  also have "\<dots> = processing env s e rs
             (?w'\<lparr>trace := trace ?w'
                   @ concat (replicate (length fs)
                       [Request (page_query env (continuation ?w') s e), Delay 5000])\<rparr>)"
    by (rule Cons.IH [OF fs])
  finally show ?case by simp
qed

text \<open>
  C4.  In the processing loop a failed response never moves the cursor.  A pass whose
  response is not a success only adds the request and a delay of 5000 ms and goes round
  again with the Worker otherwise unchanged; a pass changes the cursor only if its response
  is a success that carries a continuation, which then is the new cursor; and any run of
  failed responses leaves the loop where it was, having issued the same request and waited
  5000 ms once for each of them.
\<close>

theorem processing_failure_keeps_cursor:
  "(\<not> isSuccessResponse res \<longrightarrow>
      processing_iteration env s e res w =
        Continue (w\<lparr>trace := trace w
                      @ [Request (page_query env (continuation w) s e), Delay 5000]\<rparr>))
   \<and> (continuation (step_worker (processing_iteration env s e res w)) \<noteq> continuation w \<longrightarrow>
        isSuccessResponse res \<and> truthy (res_continuation res)
        \<and> res_continuation res
            = Some (continuation (step_worker (processing_iteration env s e res w))))
   \<and> ((\<forall>r \<in> set fs. \<not> isSuccessResponse r) \<longrightarrow>
        processing env s e (fs @ rs) w =
          processing env s e rs
            (w\<lparr>trace := trace w
                  @ concat (replicate (length fs)
                      [Request (page_query env (continuation w) s e), Delay 5000])\<rparr>))"
  using processing_iteration_failure [of res env s e w]
    processing_iteration_cursor [of env s e res w]
    processing_failures [of fs env s e rs w]
  by blast

theorem processing_failure_keeps_cursor_witness:
  "\<not> isSuccessResponse (Failure :: int response)
   \<and> processing_iteration example_env 0 8 Failure (idle\<lparr>continuation := ''c1''\<rparr>) =
       Continue (idle\<lparr>continuation := ''c1'',
                      trace := [Request (page_query example_env ''c1'' 0 8), Delay 5000]\<rparr>)
   \<and> continuation (step_worker
        (processing_iteration example_env 0 8 (Success (page [3, 4]) (Some ''c2''))
           (idle\<lparr>continuation := ''c1''\<rparr>))) = ''c2''
   \<and> isSuccessResponse (Success (page [3, 4]) (Some ''c2''))
   \<and> truthy (res_continuation (Success (page [3, 4]) (Some ''c2'')))
   \<and> processing example_env 0 8 ([Failure, Failure] @ []) (idle\<lparr>continuation := ''c1''\<rparr>) =
       processing example_env 0 8 []
         (idle\<lparr>continuation := ''c1'',
               trace := [Request (page_query example_env ''c1'' 0 8), Delay 5000,
                         Request (page_query example_env ''c1'' 0 8), Delay 5000]\<rparr>)"
proof -
  have a: "\<not> isSuccessResponse (Failure :: int response)" by simp
  have b: "continuation (step_worker
        (processing_iteration example_env 0 8 (Success (page [3, 4]) (Some ''c2''))
           (idle\<lparr>continuation := ''c1''\<rparr>))) = ''c2''"
    by (simp add: processing_iteration_def page_def)
  have c: "\<forall>r \<in> set [Failure, Failure :: int response]. \<not> isSuccessResponse r" by simp
  have t: "trace idle = []" by (simp add: idle_def)
  show ?thesis
    using processing_failure_keeps_cursor
            [of Failure example_env 0 8 "idle\<lparr>continuation := ''c1''\<rparr>" "[Failure, Failure]" "[]"]
      processing_failure_keeps_cursor
            [of "Success (page [3, 4]) (Some ''c2'')" example_env 0 8
                "idle\<lparr>continuation := ''c1''\<rparr>" "[]" "[]"]
      a b c
    by (simp add: t del: processing.simps)
qed

section \<open>The empty range\<close>

lemma process_retry:
  "\<not> isSuccessResponse ascRes \<Longrightarrow>
   process env b (ascRes # rs) w =
     process env (block4 (startDate b) (endDate b) (idB b) (contract b)) rs
       (w\<lparr>busy := True,
           data_block := Some (block4 (startDate b) (endDate b) (idB b) (contract b)),
           trace := trace w
             @ [Request (probe_query env ''asc'' (startDate b) (endDate b) (contract b)),
                Delay 5000]\<rparr>)"
  by (simp add: Let_def perform_def)

lemma block4_fields [simp]:
  "startDate (block4 s e i c) = s"
  "endDate (block4 s e i c) = e"
  "idB (block4 s e i c) = i"
  "contract (block4 s e i c) = c"
  "mapping (block4 s e i c) = None"
  by (simp_all add: block4_def)

text \<open>
  C6.  A Block whose ascending probe succeeds with no records is released at once.  After
  any number of failed probes, each retried after 5000 ms, the first successful probe with
  an empty record array ends \<^verbatim>\<open>process\<close>: the only effects are the probes, the delays
  and the release event for that Block; nothing is inserted, no descending probe and no
  page request is issued, \<open>busy\<close> is false and the cursor is empty.
\<close>

theorem process_empty_probe_releases:
  "process env b (replicate n Failure @ Success [] cur # rs) w =
     Finished
       (w\<lparr>busy := False,
           continuation := [],
           data_block := Some (block4 (startDate b) (endDate b) (idB b) (contract b)),
           trace := trace w
             @ concat (replicate n
                 [Request (probe_query env ''asc'' (startDate b) (endDate b) (contract b)),
                  Delay 5000])
             @ [Request (probe_query env ''asc'' (startDate b) (endDate b) (contract b)),
                Emit (WorkerRelease (block4 (startDate b) (endDate b) (idB b) (contract b)))]\<rparr>)"
proof (induction n arbitrary: b w)
  case 0
  show ?case
    by (simp add: Let_def perform_def worker_release_def)
next
  case (Suc n)
  show ?case
    by (simp add: process_retry Suc.IH del: process.simps)
qed

theorem process_empty_probe_releases_witness:
  "process example_env (block4 0 8 ''b0'' []) (Success [] None # [Success (page [8, 7]) None]) idle =
     Finished
       (idle\<lparr>busy := False,
           continuation := [],
           data_block := Some (block4 0 8 ''b0'' []),
           trace := [Request (probe_query example_env ''asc'' 0 8 []),
                     Emit (WorkerRelease (block4 0 8 ''b0'' []))]\<rparr>)"
  using process_empty_probe_releases
          [of example_env "block4 0 8 ''b0'' []" 0 None "[Success (page [8, 7]) None]" idle]
  by (simp add: idle_def)

section \<open>Release and the recorded Block\<close>

lemma grain_iteration_data_block:
  "grain_iteration env asc s e i c descRes w = GrainContinue e' w' \<Longrightarrow> data_block w' = data_block w"
  "grain_iteration env asc s e i c descRes w = GrainBreak w' \<Longrightarrow> data_block w' = data_block w"
  "grain_iteration env asc s e i c descRes w = GrainReturn w' \<Longrightarrow> data_block w' = data_block w"
  by (auto simp: grain_iteration_def Let_def split: if_splits)

lemma grain_data_block:
  "data_block (grain_worker (grain env asc s e i c rs w)) = data_block w"
proof (induction rs arbitrary: e w)
  case Nil
  show ?case by simp
next
  case (Cons descRes rs)
  show ?case
  proof (cases "grain_iteration env asc s e i c descRes w")
    case (GrainContinue e' w')
    with Cons.IH [of e' w'] grain_iteration_data_block(1) [OF GrainContinue]
    show ?thesis by simp
  next
    case (GrainBreak w')
    with grain_iteration_data_block(2) [OF GrainBreak] show ?thesis by simp
  next
    case (GrainReturn w')
    with grain_iteration_data_block(3) [OF GrainReturn] show ?thesis by simp
  qed
qed

lemma processing_iteration_data_block:
  "data_block (step_worker (processing_iteration env s e res w)) = data_block w"
  by (simp add: processing_iteration_def Let_def split: option.splits)

lemma processing_data_block:
  "data_block (run_worker (processing env s e rs w)) = data_block w"
proof (induction rs arbitrary: w)
  case Nil
  show ?case by simp
next
  case (Cons res rs)
  show ?case
  proof (cases "processing_iteration env s e res w")
    case (Continue w')
    with Cons.IH [of w'] processing_iteration_data_block [of env s e res w]
    show ?thesis by simp
  next
    case (Break w')
    with processing_iteration_data_block [of env s e res w] show ?thesis by simp
  qed
qed

lemma process_data_block:
  "data_block (run_worker (process env b rs w))
     = Some (block4 (startDate b) (endDate b) (idB b) (contract b))"
proof (induction rs arbitrary: b w)
  case Nil
  show ?case by simp
next
  case (Cons ascRes rs)
  let ?b4 = "block4 (startDate b) (endDate b) (idB b) (contract b)"
  let ?w1 = "perform (Request (probe_query env ''asc'' (startDate b) (endDate b) (contract b)))
               (w\<lparr>busy := True, data_block := Some ?b4\<rparr>)"
  show ?case
  proof (cases "isSuccessResponse ascRes")
    case False
    then show ?thesis
      using Cons.IH [of ?b4 "perform (Delay 5000) ?w1"] by (simp add: Let_def)
  next
    case ok: True
    show ?thesis
    proof (cases "records ascRes = []")
      case True
      with ok show ?thesis by (simp add: Let_def)
    next
      case False
      let ?g = "grain env (records ascRes) (startDate b) (endDate b) (idB b) (contract b) rs ?w1"
      have g: "data_block (grain_worker ?g) = Some ?b4"
        by (simp add: grain_data_block)
      show ?thesis
      proof (cases ?g)
        case (GrainAwaiting w2)
        with g ok False show ?thesis by (simp add: Let_def)
      next
        case (GrainReleased w2)
        with g ok False show ?thesis by (simp add: Let_def)
      next
        case (Grained e' rs' w2)
        have p: "data_block (run_worker (processing env (startDate b) e' rs' w2)) = Some ?b4"
          using g Grained by (simp add: processing_data_block)
        show ?thesis
        proof (cases "processing env (startDate b) e' rs' w2")
          case (Awaiting w3)
          with p Grained ok False show ?thesis by (simp add: Let_def)
        next
          case (Finished w3)
          with p Grained ok False show ?thesis by (simp add: Let_def)
        qed
      qed
    qed
  qed
qed

text \<open>
  C9.  A release resets the cursor and the busy flag and nothing else.  \<^verbatim>\<open>_release\<close>
  sets \<open>continuation\<close> to the empty string and \<open>busy\<close> to false, emits the release event
  and leaves \<open>data.block\<close> as it was; and at every point of a run of \<^verbatim>\<open>process\<close>,
  also after its release, \<open>data.block\<close> is the Block recorded at entry, with the
  \<open>endDate\<close> it had then.
\<close>

theorem release_keeps_data_block:
  "worker_release b' w =
     w\<lparr>busy := False, continuation := [], trace := trace w @ [Emit (WorkerRelease b')]\<rparr>
   \<and> data_block (worker_release b' w) = data_block w
   \<and> data_block (run_worker (process env b rs w))
       = Some (block4 (startDate b) (endDate b) (idB b) (contract b))"
  by (simp add: process_data_block worker_release_def perform_def)

text \<open>
  A run in which graining halves \<open>[0, 8]\<close> once: the release event carries \<open>[0, 4]\<close>,
  while \<open>data.block\<close> still holds \<open>[0, 8]\<close>.
\<close>

lemma example_grain_iteration_dense:
  "grain_iteration example_env (page [1, 2]) 0 8 ''b0'' [] (Success (page [8, 7]) None) w =
     GrainContinue 4
       (worker_split (block4 4 8 ''b0'' [])
          (perform (Insert (page [1, 2] @ page [8, 7]))
             (perform (Request (probe_query example_env ''desc'' 0 8 [])) w)))"
  by (simp add: grain_iteration_def page_def)

lemma example_grain_iteration_sparse:
  "grain_iteration example_env (page [1, 2]) 0 4 ''b0'' [] (Success (page [3]) None) w =
     GrainBreak
       (perform (Insert (page [1, 2] @ page [3]))
          (perform (Request (probe_query example_env ''desc'' 0 4 [])) w))"
  by (simp add: grain_iteration_def page_def)

lemma example_processing_iteration_empty:
  "processing_iteration example_env 0 4 (Success [] None) w =
     Break (perform (Request (page_query example_env (continuation w) 0 4)) w)"
  by (simp add: processing_iteration_def)

theorem release_keeps_data_block_witness:
  "\<exists>w. process example_env (block4 0 8 ''b0'' [])
          [Success (page [1, 2]) None, Success (page [8, 7]) None,
           Success (page [3]) None, Success [] None] idle = Finished w
       \<and> last (trace w) = Emit (WorkerRelease (block4 0 4 ''b0'' []))
       \<and> data_block w = Some (block4 0 8 ''b0'' [])
       \<and> \<not> busy w \<and> continuation w = []"
proof -
  let ?rs = "[Success (page [1, 2]) None, Success (page [8, 7]) None,
              Success (page [3]) None, Success [] None]"
  have ne: "page [1, 2] \<noteq> []" by (simp add: page_def)
  have run: "\<exists>w0. process example_env (block4 0 8 ''b0'' []) ?rs idle
               = Finished (worker_release (block4 0 4 ''b0'' []) w0)"
    by (simp add: Let_def ne example_grain_iteration_dense example_grain_iteration_sparse
          example_processing_iteration_empty)
       (rule exI, rule refl)
  then obtain w0 where w0: "process example_env (block4 0 8 ''b0'' []) ?rs idle
               = Finished (worker_release (block4 0 4 ''b0'' []) w0)" ..
  have d: "data_block (run_worker (process example_env (block4 0 8 ''b0'' []) ?rs idle))
             = Some (block4 0 8 ''b0'' [])"
    using release_keeps_data_block [of "block4 0 4 ''b0'' []" idle example_env
        "block4 0 8 ''b0'' []" ?rs]
    by simp
  show ?thesis
    using w0 d by simp
qed

section \<open>The tail loop\<close>

text \<open>
  C5.  Burst delegation.  Take a pass of the tail loop whose ascending response is a
  success with a non-empty page \<open>recs\<close> and a non-empty continuation.  If the descending
  probe succeeds and the density predicate holds of the two pages, the pass emits exactly
  one Split, from the date of the first record of \<open>recs\<close> to the date of its last record,
  and the next pass starts at the date of the last record.  Otherwise the pass emits no
  Split and the start is unchanged.
\<close>

theorem upkeep_burst_delegation:
  assumes "recs \<noteq> []" and "cur \<noteq> []"
  shows "(isSuccessResponse descRes \<and> isHighDensityBlock env (recs @ records descRes) 300000 \<longrightarrow>
           upkeep_iteration env date v4 (Success recs (Some cur)) descRes (sd, k, w) =
             (updatedAt (last recs), Suc k,
              w\<lparr>trace := trace w @
                   [Delay 5000,
                    Request (upkeep_asc_query env (continuation w) sd),
                    Upsert (datatypeW env) recs,
                    Request (upkeep_desc_query env (continuation w) date),
                    Emit (WorkerSplit
                      \<lparr> idB = v4 k, startDate = updatedAt (hd recs),
                        endDate = updatedAt (last recs), contract = [], mapping = None \<rparr>)]\<rparr>))
         \<and> (\<not> (isSuccessResponse descRes \<and> isHighDensityBlock env (recs @ records descRes) 300000) \<longrightarrow>
             fst (upkeep_iteration env date v4 (Success recs (Some cur)) descRes (sd, k, w)) = sd
             \<and> split_blocks (trace (snd (snd
                  (upkeep_iteration env date v4 (Success recs (Some cur)) descRes (sd, k, w)))))
                 = split_blocks (trace w))"
  using assms
  by (auto simp: upkeep_iteration_def Let_def worker_split_def perform_def split_blocks_append)

theorem upkeep_burst_delegation_witness:
  "page [5, 6, 7] \<noteq> [] \<and> ''c1'' \<noteq> []
   \<and> isSuccessResponse (Success (page [9]) None)
   \<and> isHighDensityBlock example_env (page [5, 6, 7] @ records (Success (page [9]) None)) 300000
   \<and> upkeep_iteration example_env 3 (\<lambda>k. ''id'') (Success (page [5, 6, 7]) (Some ''c1''))
        (Success (page [9]) None) (3, 0, idle) =
       (7, Suc 0,
        idle\<lparr>trace :=
               [Delay 5000,
                Request (upkeep_asc_query example_env [] 3),
                Upsert ''sales'' (page [5, 6, 7]),
                Request (upkeep_desc_query example_env [] 3),
                Emit (WorkerSplit
                  \<lparr> idB = ''id'', startDate = 5, endDate = 7, contract = [], mapping = None \<rparr>)]\<rparr>)
   \<and> fst (upkeep_iteration example_env 3 (\<lambda>k. ''id'') (Success (page [5, 6, 7]) (Some ''c1''))
        Failure (3, 0, idle)) = 3"
proof -
  have h1: "page [5, 6, 7] \<noteq> []" by (simp add: page_def)
  have h2: "''c1'' \<noteq> []" by simp
  have h3: "isSuccessResponse (Success (page [9]) None)" by simp
  have h4: "isHighDensityBlock example_env
              (page [5, 6, 7] @ records (Success (page [9]) None)) 300000"
    by (simp add: page_def)
  have i: "continuation idle = []" "trace idle = []" by (simp_all add: idle_def)
  have l: "updatedAt (last (page [5, 6, 7])) = 7" "updatedAt (hd (page [5, 6, 7])) = 5"
    by (simp_all add: page_def)
  show ?thesis
    using upkeep_burst_delegation [OF h1 h2, of "Success (page [9]) None" example_env 3
            "\<lambda>k. ''id''" 3 0 idle]
      upkeep_burst_delegation [OF h1 h2, of Failure example_env 3 "\<lambda>k. ''id''" 3 0 idle]
      h1 h3 h4
    by (simp add: i l)
qed

lemma upkeep_iteration_continuation:
  "continuation (snd (snd (upkeep_iteration env date v4 ascRes descRes st)))
     = continuation (snd (snd st))"
  by (cases st) (simp add: upkeep_iteration_def Let_def)

lemma upkeep_loop_continuation:
  "continuation (snd (snd (upkeep_loop env date v4 rs st))) = continuation (snd (snd st))"
proof (induction rs arbitrary: st)
  case Nil
  show ?case by simp
next
  case (Cons r rs)
  obtain ascRes descRes where r: "r = (ascRes, descRes)" by (cases r)
  show ?case
    unfolding r using Cons.IH [of "upkeep_iteration env date v4 ascRes descRes st"]
    by (simp add: upkeep_iteration_continuation)
qed

lemma upkeep_iteration_first_request:
  "\<exists>rest. trace (snd (snd (upkeep_iteration env date v4 ascRes descRes (sd, k, w))))
     = trace w @ Delay 5000 # Request (upkeep_asc_query env (continuation w) sd) # rest"
  by (simp add: upkeep_iteration_def Let_def)

lemma upkeep_iteration_cursor_value:
  "c1 \<noteq> [] \<Longrightarrow> c2 \<noteq> [] \<Longrightarrow>
   upkeep_iteration env date v4 (Success recs (Some c1)) descRes st
     = upkeep_iteration env date v4 (Success recs (Some c2)) descRes st"
  by (cases st) (simp add: upkeep_iteration_def Let_def)

text \<open>
  C10.  The tail loop never writes the Worker's continuation.  Every pass starts by
  building its ascending request from \<open>continuation\<close> and the local start date, and leaves
  \<open>continuation\<close> as it found it, so it is the same after any number of passes; and the
  outcome of a pass does not depend on which cursor the ascending response carries, only
  on whether it carries one.
\<close>

theorem upkeep_keeps_continuation:
  "continuation (snd (snd (upkeep_iteration env date v4 ascRes descRes (sd, k, w)))) = continuation w
   \<and> (\<exists>rest. trace (snd (snd (upkeep_iteration env date v4 ascRes descRes (sd, k, w))))
         = trace w @ Delay 5000 # Request (upkeep_asc_query env (continuation w) sd) # rest)
   \<and> continuation (snd (snd (upkeep_loop env date v4 rs (sd, k, w)))) = continuation w
   \<and> continuation (snd (snd (upkeep env date v4 rs w))) = continuation w
   \<and> (c1 \<noteq> [] \<and> c2 \<noteq> [] \<longrightarrow>
        upkeep_iteration env date v4 (Success recs (Some c1)) descRes (sd, k, w)
          = upkeep_iteration env date v4 (Success recs (Some c2)) descRes (sd, k, w))"
  using upkeep_iteration_continuation [of env date v4 ascRes descRes "(sd, k, w)"]
    upkeep_iteration_first_request [of env date v4 ascRes descRes sd k w]
    upkeep_loop_continuation [of env date v4 rs "(sd, k, w)"]
    upkeep_loop_continuation [of env date v4 rs "(date, 0, w)"]
    upkeep_iteration_cursor_value [of c1 c2 env date v4 recs descRes "(sd, k, w)"]
  by (simp add: upkeep_def)

theorem upkeep_keeps_continuation_witness:
  "''c1'' \<noteq> [] \<and> ''c2'' \<noteq> []
   \<and> continuation (snd (snd (upkeep_iteration example_env 3 (\<lambda>k. ''id'')
        (Success (page [5, 6, 7]) (Some ''c1'')) (Success (page [9]) None) (3, 0, idle)))) = []
   \<and> continuation (snd (snd (upkeep example_env 3 (\<lambda>k. ''id'')
        [(Success (page [5, 6, 7]) (Some ''c1''), Success (page [9]) None),
         (Success (page [8]) (Some ''c2''), Failure)] idle))) = []
   \<and> upkeep_iteration example_env 3 (\<lambda>k. ''id'')
        (Success (page [5, 6, 7]) (Some ''c1'')) (Success (page [9]) None) (3, 0, idle)
     = upkeep_iteration example_env 3 (\<lambda>k. ''id'')
        (Success (page [5, 6, 7]) (Some ''c2'')) (Success (page [9]) None) (3, 0, idle)"
proof -
  have i: "continuation idle = []" by (simp add: idle_def)
  show ?thesis
    using upkeep_keeps_continuation [of example_env 3 "\<lambda>k. ''id''"
        "Success (page [5, 6, 7]) (Some ''c1'')" "Success (page [9]) None" 3 0 idle
        "[(Success (page [5, 6, 7]) (Some ''c1''), Success (page [9]) None),
          (Success (page [8]) (Some ''c2''), Failure)]" "''c1''" "''c2''" "page [5, 6, 7]"]
    by (auto simp: i simp del: upkeep_loop.simps)
qed

end
